theory Spec2Isabelle
  imports Complex_Main "HOL-Library.AList"
begin

section \<open>The Felix agent of calico/felix/felix.py\<close>

text \<open>
  A shallow embedding of \<^verbatim>\<open>FelixAgent\<close>. The agent is single threaded, so each method
  is a function from the agent's state to its new state. A Python exception is the
  \<open>Inl\<close> branch of a sum: \<^verbatim>\<open>run()\<close> has no \<^verbatim>\<open>try\<close> around the dispatch, so an
  exception raised by a handler leaves the loop and the state at the raise is not seen
  again. The clock (\<^verbatim>\<open>time.time()\<close>, in seconds) and the token of \<^verbatim>\<open>uuid.uuid4()\<close> are
  arguments; the clock is a real number (rounding of floats is not modelled).
\<close>

subsection \<open>Message values\<close>

text \<open>
  \<^verbatim>\<open>message.fields\<close> is a dictionary of decoded values, read by string keys.
\<close>

datatype val =
    VNone
  | VBool bool
  | VInt int
  | VFloat real
  | VStr string
  | VList "val list"
  | VDict "(string \<times> val) list"

datatype msg_type =
    TYPE_HEARTBEAT
  | TYPE_EP_CR
  | TYPE_EP_UP
  | TYPE_EP_RM
  | TYPE_RESYNC
  | TYPE_GET_ACL
  | TYPE_ACL_UPD
  | TYPE_OTHER string

datatype socket_type = TYPE_EP_REQ | TYPE_EP_REP | TYPE_ACL_REQ | TYPE_ACL_SUB

text \<open>
  \<open>msg_fields\<close> is \<^verbatim>\<open>message.fields\<close>. \<open>msg_endpoint_id\<close> is the attribute
  \<^verbatim>\<open>message.endpoint_id\<close> that \<^verbatim>\<open>handle_aclupdate\<close> reads: the topic of a
  publication, an endpoint id; no other handler reads it.
\<close>

record message =
  mtype :: msg_type
  msg_fields :: "(string \<times> val) list"
  msg_endpoint_id :: string

definition Message :: "msg_type \<Rightarrow> (string \<times> val) list \<Rightarrow> message" where
  "Message t fs = \<lparr>mtype = t, msg_fields = fs, msg_endpoint_id = []\<rparr>"

datatype error =
    KeyError string
  | TypeError
  | AssertionError
  | UnicodeEncodeError

definition bind_err :: "error + 'a \<Rightarrow> ('a \<Rightarrow> error + 'b) \<Rightarrow> error + 'b" where
  "bind_err r f = (case r of Inl e \<Rightarrow> Inl e | Inr x \<Rightarrow> f x)"

text \<open>\<^verbatim>\<open>fields[k]\<close>: KeyError when the key is absent.\<close>

definition field :: "string \<Rightarrow> (string \<times> val) list \<Rightarrow> error + val" where
  "field k fs = (case map_of fs k of None \<Rightarrow> Inl (KeyError k) | Some v \<Rightarrow> Inr v)"

text \<open>
  A field the handler uses as a string. A value of another type is reported as a
  TypeError where the field is read; the source fails on it later, at the first string
  operation. The properties below are about values of the expected types.
\<close>

definition str_field :: "string \<Rightarrow> (string \<times> val) list \<Rightarrow> error + string" where
  "str_field k fs =
     bind_err (field k fs)
       (\<lambda>v. case v of VStr s \<Rightarrow> Inr s | _ \<Rightarrow> Inl TypeError)"

text \<open>\<^verbatim>\<open>s.encode('ascii')\<close>: raises on a character outside ASCII.\<close>

definition encode_ascii :: "string \<Rightarrow> error + string" where
  "encode_ascii s =
     (if list_all (\<lambda>c. (of_char c :: nat) < 128) s then Inr s else Inl UnicodeEncodeError)"

text \<open>Python's truth value of an object.\<close>

fun truthy :: "val \<Rightarrow> bool" where
  "truthy VNone = False"
| "truthy (VBool b) = b"
| "truthy (VInt n) = (n \<noteq> 0)"
| "truthy (VFloat x) = (x \<noteq> 0)"
| "truthy (VStr s) = (s \<noteq> [])"
| "truthy (VList xs) = (xs \<noteq> [])"
| "truthy (VDict kvs) = (kvs \<noteq> [])"

text \<open>
  \<^verbatim>\<open>v == self.resync_id\<close>, where \<^verbatim>\<open>self.resync_id\<close> is None or a string.
\<close>

fun eq_token :: "val \<Rightarrow> string option \<Rightarrow> bool" where
  "eq_token VNone None = True"
| "eq_token (VStr r) (Some a) = (r = a)"
| "eq_token _ _ = False"

text \<open>
  \<^verbatim>\<open>v == self.resync_recd\<close>, where \<^verbatim>\<open>self.resync_recd\<close> is None or an integer:
  Python compares numbers by value.
\<close>

fun eq_count :: "val \<Rightarrow> int option \<Rightarrow> bool" where
  "eq_count VNone None = True"
| "eq_count (VInt n) (Some k) = (n = k)"
| "eq_count (VFloat x) (Some k) = (x = of_int k)"
| "eq_count (VBool b) (Some k) = (k = (if b then 1 else 0))"
| "eq_count _ _ = False"

subsection \<open>Endpoints, sockets and the agent\<close>

datatype address = Address val

record endpoint =
  ep_id :: string
  suffix :: string
  mac :: string
  addresses :: "address set"
  state :: string
  pending_resync :: bool
  need_acls :: bool

record socket =
  request_outstanding :: bool
  timed_out :: bool

text \<open>
  What the agent does to the outside, in the order it does it: messages sent, the
  subscriptions of the ACL SUB socket, reconnections, the calls of the packet-filter
  shim, and the error and warning logs.
\<close>

datatype call =
    Send socket_type message
  | Subscribe string
  | Unsubscribe string
  | Close socket_type
  | Communicate socket_type
  | Remove string
  | ProgramEndpoint string
  | UpdateAcls string val
  | ListEpsWithRules
  | DelRules string
  | LogError string
  | LogWarning string

text \<open>
  \<open>endpoints\<close> is the dictionary \<^verbatim>\<open>self.endpoints\<close>, as an association list in the
  order in which Python iterates over it. \<open>endpoint_queue\<close> and \<open>acl_queue\<close> are the
  deques, leftmost element first. \<open>rules\<close> is the set of rule-chain suffixes installed
  in the host's packet filter, which \<^verbatim>\<open>futils\<close> reads and changes. \<open>calls\<close> is the trace,
  oldest call first.
\<close>

record agent =
  sockets :: "socket_type \<Rightarrow> socket"
  endpoints :: "(string \<times> endpoint) list"
  resync_id :: "string option"
  resync_recd :: "int option"
  resync_expected :: val
  resync_time :: "real option"
  endpoint_queue :: "message list"
  acl_queue :: "message list"
  rules :: "string list"
  calls :: "call list"

text \<open>
  What the agent takes from its surroundings: \<^verbatim>\<open>socket.gethostname()\<close>,
  \<^verbatim>\<open>Config.RESYNC_INT_SEC\<close>, and the constructor \<^verbatim>\<open>Endpoint(endpoint_id, mac)\<close> of
  calico/felix/endpoint.py.
\<close>

record env =
  hostname :: string
  RESYNC_INT_SEC :: real
  new_endpoint :: "string \<Rightarrow> string \<Rightarrow> endpoint"

definition emit :: "call \<Rightarrow> agent \<Rightarrow> agent" where
  "emit c s = s\<lparr>calls := calls s @ [c]\<rparr>"

subsection \<open>The transport and the packet-filter shim\<close>

text \<open>
  Modelled from the spec: the socket roles of calico/felix/fsocket.py (section 4.A).
  The request roles are EP_REQ and ACL_REQ; EP_REQ and EP_REP belong to the endpoint
  API, ACL_REQ and ACL_SUB to the ACL API.
\<close>

definition REQUEST_TYPES :: "socket_type set" where
  "REQUEST_TYPES = {TYPE_EP_REQ, TYPE_ACL_REQ}"

definition EP_TYPES :: "socket_type set" where
  "EP_TYPES = {TYPE_EP_REQ, TYPE_EP_REP}"

text \<open>
  Modelled from the spec: \<^verbatim>\<open>Socket.send\<close> (section 4.A) transmits the message and, for
  a request role, marks a request as outstanding.
\<close>

definition socket_send :: "socket_type \<Rightarrow> message \<Rightarrow> agent \<Rightarrow> agent" where
  "socket_send t m s =
     emit (Send t m)
       (if t \<in> REQUEST_TYPES
        then s\<lparr>sockets := (sockets s)(t := (sockets s t)\<lparr>request_outstanding := True\<rparr>)\<rparr>
        else s)"

text \<open>
  Modelled from the spec: \<^verbatim>\<open>Socket.receive\<close> (section 4.A) reads at most one message
  and, for a request role, clears the outstanding request when a response came. The
  message it returns is an input of the loop.
\<close>

definition socket_receive :: "socket_type \<Rightarrow> message option \<Rightarrow> agent \<Rightarrow> agent" where
  "socket_receive t r s =
     (if t \<in> REQUEST_TYPES \<and> r \<noteq> None
      then s\<lparr>sockets := (sockets s)(t := (sockets s t)\<lparr>request_outstanding := False\<rparr>)\<rparr>
      else s)"

text \<open>
  Modelled from the spec: \<^verbatim>\<open>ep.remove()\<close> (section 4.F) removes the endpoint's
  packet-filter rules.
\<close>

definition ep_remove :: "endpoint \<Rightarrow> agent \<Rightarrow> agent" where
  "ep_remove ep s = emit (Remove (ep_id ep)) (s\<lparr>rules := removeAll (suffix ep) (rules s)\<rparr>)"

text \<open>
  Modelled from the spec: \<^verbatim>\<open>ep.program_endpoint()\<close> (section 4.F) installs the
  endpoint's packet-filter rules.
\<close>

definition program_endpoint :: "endpoint \<Rightarrow> agent \<Rightarrow> agent" where
  "program_endpoint ep s =
     emit (ProgramEndpoint (ep_id ep))
       (s\<lparr>rules := (if suffix ep \<in> set (rules s) then rules s else rules s @ [suffix ep])\<rparr>)"

text \<open>
  Modelled from the spec: \<^verbatim>\<open>ep.update_acls(acls)\<close> (section 4.F) installs the
  endpoint's allow and deny rules; the rule chains stay as they are.
\<close>

definition update_acls :: "endpoint \<Rightarrow> val \<Rightarrow> agent \<Rightarrow> agent" where
  "update_acls ep acls s = emit (UpdateAcls (ep_id ep) acls) s"

text \<open>
  Modelled from the spec: \<^verbatim>\<open>futils.list_eps_with_rules()\<close> (section 4.F) returns the set
  of suffixes that have rule chains; the list is the order in which the set is iterated.
\<close>

definition list_eps_with_rules :: "agent \<Rightarrow> string list \<times> agent" where
  "list_eps_with_rules s = (remdups (rules s), emit ListEpsWithRules s)"

text \<open>
  Modelled from the spec: \<^verbatim>\<open>futils.del_rules(suffix)\<close> (section 4.F) removes the rule
  chain of a suffix.
\<close>

definition del_rules :: "string \<Rightarrow> agent \<Rightarrow> agent" where
  "del_rules i s = emit (DelRules i) (s\<lparr>rules := removeAll i (rules s)\<rparr>)"

subsection \<open>Requests and resynchronisation\<close>

text \<open>\<^verbatim>\<open>send_request\<close>, lines 117-136.\<close>

definition send_request :: "message \<Rightarrow> socket_type \<Rightarrow> agent \<Rightarrow> error + agent" where
  "send_request m t s =
     (if t \<notin> REQUEST_TYPES then Inl AssertionError
      else if request_outstanding (sockets s t) then
        (if t = TYPE_EP_REQ
         then Inr (s\<lparr>endpoint_queue := m # endpoint_queue s\<rparr>)
         else Inr (s\<lparr>acl_queue := m # acl_queue s\<rparr>))
      else Inr (socket_send t m s))"

definition resync_message :: "env \<Rightarrow> string \<Rightarrow> real \<Rightarrow> message" where
  "resync_message e uuid now =
     Message TYPE_RESYNC
       [(''resync_id'', VStr uuid), (''issued'', VFloat (now * 1000)),
        (''hostname'', VStr (hostname e))]"

text \<open>\<^verbatim>\<open>resync_endpoints\<close>, lines 138-166.\<close>

definition resync_endpoints :: "env \<Rightarrow> string \<Rightarrow> real \<Rightarrow> agent \<Rightarrow> error + agent" where
  "resync_endpoints e uuid now s =
     (let s1 = s\<lparr>resync_id := Some uuid, resync_recd := Some 0, resync_expected := VInt 0\<rparr>;
          s2 = s1\<lparr>endpoints :=
                 map (\<lambda>(k, ep). (k, ep\<lparr>pending_resync := True\<rparr>)) (endpoints s1)\<rparr>;
          s3 = s2\<lparr>endpoint_queue := [], acl_queue := []\<rparr>
      in send_request (resync_message e uuid now) TYPE_EP_REQ s3)"

definition get_acl_message :: "string \<Rightarrow> real \<Rightarrow> message" where
  "get_acl_message endpoint_id now =
     Message TYPE_GET_ACL [(''endpoint_id'', VStr endpoint_id), (''issued'', VFloat (now * 1000))]"

text \<open>
  The loop of \<^verbatim>\<open>resync_acls\<close>, lines 176-186, over the keys of the registry.
\<close>

fun resync_acls_loop :: "real \<Rightarrow> string list \<Rightarrow> agent \<Rightarrow> error + agent" where
  "resync_acls_loop now [] s = Inr s"
| "resync_acls_loop now (k # ks) s =
     bind_err
       (send_request (get_acl_message k now) TYPE_ACL_REQ
          (s\<lparr>endpoints :=
               map (\<lambda>(k', ep). if k' = k then (k', ep\<lparr>need_acls := True\<rparr>) else (k', ep))
                 (endpoints s)\<rparr>))
       (resync_acls_loop now ks)"

definition resync_acls :: "real \<Rightarrow> agent \<Rightarrow> error + agent" where
  "resync_acls now s = resync_acls_loop now (map fst (endpoints s)) (s\<lparr>acl_queue := []\<rparr>)"

text \<open>
  The first loop of \<^verbatim>\<open>complete_endpoint_resync\<close>, lines 199-201, over
  \<^verbatim>\<open>self.endpoints.values()\<close>.
\<close>

fun remove_pending :: "endpoint list \<Rightarrow> agent \<Rightarrow> agent" where
  "remove_pending [] s = s"
| "remove_pending (ep # eps) s =
     remove_pending eps (if pending_resync ep then ep_remove ep s else s)"

text \<open>The second loop, lines 208-213, over \<^verbatim>\<open>rule_ids\<close>.\<close>

fun remove_unknown_rules :: "string set \<Rightarrow> string list \<Rightarrow> agent \<Rightarrow> agent" where
  "remove_unknown_rules known_ids [] s = s"
| "remove_unknown_rules known_ids (i # ids) s =
     remove_unknown_rules known_ids ids
       (if i \<notin> known_ids
        then del_rules i (emit (LogWarning ''Removing rules for removed object'') s)
        else s)"

text \<open>\<^verbatim>\<open>complete_endpoint_resync\<close>, lines 188-213.\<close>

definition complete_endpoint_resync :: "real \<Rightarrow> bool \<Rightarrow> agent \<Rightarrow> agent" where
  "complete_endpoint_resync now successful s =
     (let s1 = s\<lparr>resync_id := None, resync_recd := None, resync_expected := VNone,
                 resync_time := Some (now * 1000)\<rparr>;
          s2 = (if successful then remove_pending (map snd (endpoints s1)) s1 else s1);
          (rule_ids, s3) = list_eps_with_rules s2;
          known_ids = set (map (\<lambda>(k, ep). suffix ep) (endpoints s3))
      in remove_unknown_rules known_ids rule_ids s3)"

subsection \<open>The message handlers\<close>

text \<open>
  \<^verbatim>\<open>_create_endpoint\<close>, lines 392-420. The new object is stored in the registry, the SUB
  socket subscribes to its id, and the request for its ACL state follows.
\<close>

definition create_endpoint ::
  "env \<Rightarrow> real \<Rightarrow> string \<Rightarrow> string \<Rightarrow> agent \<Rightarrow> error + endpoint \<times> agent" where
  "create_endpoint e now endpoint_id msg_mac s =
     (let endpoint = new_endpoint e endpoint_id msg_mac;
          s1 = s\<lparr>endpoints := AList.update endpoint_id endpoint (endpoints s)\<rparr>;
          s2 = emit (Subscribe endpoint_id) s1
      in bind_err (send_request (get_acl_message endpoint_id now) TYPE_ACL_REQ s2)
           (\<lambda>s3. Inr (endpoint, s3)))"

text \<open>
  \<^verbatim>\<open>fields.get('addrs', None)\<close> and the loop over it, lines 429-431: iterating over
  None raises. A value that is not a list is reported as a TypeError as well.
\<close>

definition read_addrs :: "(string \<times> val) list \<Rightarrow> error + address set" where
  "read_addrs fs =
     (case map_of fs ''addrs'' of
        Some (VList as) \<Rightarrow> Inr (set (map Address as))
      | _ \<Rightarrow> Inl TypeError)"

text \<open>
  \<^verbatim>\<open>_update_endpoint\<close>, lines 422-441. The source mutates the endpoint object, which
  the registry holds under \<open>key\<close>; the model writes the changed record back there.
\<close>

definition update_endpoint ::
  "string \<Rightarrow> endpoint \<Rightarrow> (string \<times> val) list \<Rightarrow> agent \<Rightarrow> error + agent" where
  "update_endpoint key endpoint fs s =
     bind_err (bind_err (str_field ''mac'' fs) encode_ascii) (\<lambda>mac'.
     bind_err (bind_err (str_field ''state'' fs) encode_ascii) (\<lambda>state'.
     bind_err (read_addrs fs) (\<lambda>addresses'.
       let endpoint' = endpoint\<lparr>addresses := addresses', mac := mac'\<rparr>
       in Inr (program_endpoint endpoint'
                 (s\<lparr>endpoints := AList.update key endpoint' (endpoints s)\<rparr>)))))"

definition success_reply :: message where
  "success_reply = Message TYPE_EP_CR [(''rc'', VStr ''SUCCESS''), (''message'', VStr [])]"

text \<open>\<^verbatim>\<open>self.resync_recd += 1\<close>: a TypeError when the counter is None.\<close>

definition increment_recd :: "agent \<Rightarrow> error + agent" where
  "increment_recd s =
     (case resync_recd s of
        None \<Rightarrow> Inl TypeError
      | Some n \<Rightarrow> Inr (s\<lparr>resync_recd := Some (n + 1)\<rparr>))"

text \<open>\<^verbatim>\<open>handle_endpointcreated\<close>, lines 215-266.\<close>

definition handle_endpointcreated :: "env \<Rightarrow> real \<Rightarrow> message \<Rightarrow> agent \<Rightarrow> error + agent" where
  "handle_endpointcreated e now message s =
     bind_err (str_field ''endpoint_id'' (msg_fields message)) (\<lambda>endpoint_id.
     bind_err (field ''resync_id'' (msg_fields message)) (\<lambda>msg_resync_id.
     bind_err (field ''issued'' (msg_fields message)) (\<lambda>issued.
     bind_err (str_field ''mac'' (msg_fields message)) (\<lambda>msg_mac.
     bind_err
       (case map_of (endpoints s) endpoint_id of
          Some endpoint \<Rightarrow>
            Inr (endpoint,
                 if msg_resync_id \<noteq> VNone
                 then emit (LogWarning ''Received endpoint creation for existing endpoint'') s
                 else s)
        | None \<Rightarrow> create_endpoint e now endpoint_id msg_mac s)
       (\<lambda>(endpoint, s1).
     bind_err (update_endpoint endpoint_id endpoint (msg_fields message) s1) (\<lambda>s2.
       let s3 = socket_send TYPE_EP_REP success_reply s2;
           resync_in_progress = (truthy msg_resync_id \<and> eq_token msg_resync_id (resync_id s3))
       in bind_err (if resync_in_progress then increment_recd s3 else Inr s3) (\<lambda>s4.
            let last_resync =
                  (truthy (resync_expected s4) \<and> eq_count (resync_expected s4) (resync_recd s4))
            in if resync_in_progress \<and> last_resync
               then Inr (complete_endpoint_resync now True s4)
               else Inr s4)))))))"

text \<open>\<^verbatim>\<open>handle_endpointupdated\<close>, lines 268-293.\<close>

definition handle_endpointupdated :: "message \<Rightarrow> agent \<Rightarrow> error + agent" where
  "handle_endpointupdated message s =
     bind_err (str_field ''endpoint_id'' (msg_fields message)) (\<lambda>endpoint_id.
     bind_err (field ''issued'' (msg_fields message)) (\<lambda>issued.
       case map_of (endpoints s) endpoint_id of
         None \<Rightarrow> Inl (KeyError endpoint_id)
       | Some endpoint \<Rightarrow>
           bind_err (update_endpoint endpoint_id endpoint (msg_fields message) s)
             (\<lambda>s1. Inr (socket_send TYPE_EP_REP success_reply s1))))"

text \<open>
  \<^verbatim>\<open>handle_endpointdestroyed\<close>, lines 295-318. The keys of the registry are strings, so
  \<^verbatim>\<open>self.endpoints.pop(delete_id)\<close> raises KeyError for an unknown string and for any
  other hashable value, which the handler catches; a list or a dictionary is not
  hashable and makes \<^verbatim>\<open>pop\<close> raise TypeError.
\<close>

definition handle_endpointdestroyed :: "message \<Rightarrow> agent \<Rightarrow> error + agent" where
  "handle_endpointdestroyed message s =
     bind_err (field ''endpoint_id'' (msg_fields message)) (\<lambda>delete_id.
     bind_err (field ''issued'' (msg_fields message)) (\<lambda>issued.
       case delete_id of
         VStr i \<Rightarrow>
           (case map_of (endpoints s) i of
              None \<Rightarrow> Inr (emit (LogError ''Received destroy for absent endpoint'') s)
            | Some endpoint \<Rightarrow>
                Inr (ep_remove endpoint
                       (emit (Unsubscribe i)
                          (s\<lparr>endpoints := AList.delete i (endpoints s)\<rparr>))))
       | VList xs \<Rightarrow> Inl TypeError
       | VDict kvs \<Rightarrow> Inl TypeError
       | _ \<Rightarrow> Inr (emit (LogError ''Received destroy for absent endpoint'') s)))"

text \<open>\<^verbatim>\<open>handle_heartbeat\<close>, lines 320-329.\<close>

definition handle_heartbeat :: "message \<Rightarrow> agent \<Rightarrow> error + agent" where
  "handle_heartbeat message s = Inr (socket_send TYPE_EP_REP (Message TYPE_HEARTBEAT []) s)"

text \<open>\<^verbatim>\<open>handle_resyncstate\<close>, lines 331-358.\<close>

definition handle_resyncstate :: "real \<Rightarrow> message \<Rightarrow> agent \<Rightarrow> error + agent" where
  "handle_resyncstate now message s =
     bind_err (field ''endpoint_count'' (msg_fields message)) (\<lambda>endpoint_count.
     bind_err (field ''rc'' (msg_fields message)) (\<lambda>return_code.
     bind_err (field ''message'' (msg_fields message)) (\<lambda>return_str.
       if return_code \<noteq> VStr ''SUCCESS''
       then Inr (complete_endpoint_resync now False
                   (emit (LogError ''Resync request refused'') s))
       else if \<not> truthy endpoint_count \<or> eq_count endpoint_count (resync_recd s)
       then Inr (complete_endpoint_resync now True s)
       else Inr (s\<lparr>resync_expected := endpoint_count\<rparr>))))"

text \<open>\<^verbatim>\<open>handle_getaclstate\<close>, lines 360-375.\<close>

definition handle_getaclstate :: "message \<Rightarrow> agent \<Rightarrow> error + agent" where
  "handle_getaclstate message s =
     bind_err (field ''rc'' (msg_fields message)) (\<lambda>return_code.
     bind_err (field ''message'' (msg_fields message)) (\<lambda>return_str.
       if return_code \<noteq> VStr ''SUCCESS''
       then Inr (emit (LogError ''ACL state request refused'') s)
       else Inr s))"

text \<open>
  \<^verbatim>\<open>handle_aclupdate\<close>, lines 377-390: \<^verbatim>\<open>self.endpoints[endpoint_id]\<close> raises KeyError
  for an id that is not in the registry.
\<close>

definition handle_aclupdate :: "message \<Rightarrow> agent \<Rightarrow> error + agent" where
  "handle_aclupdate message s =
     (let endpoint_id = msg_endpoint_id message
      in case map_of (endpoints s) endpoint_id of
           None \<Rightarrow> Inl (KeyError endpoint_id)
         | Some endpoint \<Rightarrow>
             bind_err (field ''acls'' (msg_fields message))
               (\<lambda>acls. Inr (update_acls endpoint acls s)))"

text \<open>
  The dispatch table \<^verbatim>\<open>self.handlers\<close>, lines 73-81, and the call
  \<^verbatim>\<open>self.handlers[message.type](message)\<close>, line 487: a type that is not in the table
  raises KeyError.
\<close>

definition dispatch :: "env \<Rightarrow> real \<Rightarrow> message \<Rightarrow> agent \<Rightarrow> error + agent" where
  "dispatch e now message s =
     (case mtype message of
        TYPE_HEARTBEAT \<Rightarrow> handle_heartbeat message s
      | TYPE_EP_CR \<Rightarrow> handle_endpointcreated e now message s
      | TYPE_EP_UP \<Rightarrow> handle_endpointupdated message s
      | TYPE_EP_RM \<Rightarrow> handle_endpointdestroyed message s
      | TYPE_RESYNC \<Rightarrow> handle_resyncstate now message s
      | TYPE_GET_ACL \<Rightarrow> handle_getaclstate message s
      | TYPE_ACL_UPD \<Rightarrow> handle_aclupdate message s
      | TYPE_OTHER t \<Rightarrow> Inl (KeyError t))"

subsection \<open>One iteration of the loop of run\<close>

text \<open>
  Lines 483-487. The input is, for each socket with activity, what
  \<^verbatim>\<open>sock.receive()\<close> returned.
\<close>

fun receive_all ::
  "env \<Rightarrow> real \<Rightarrow> (socket_type \<times> message option) list \<Rightarrow> agent \<Rightarrow> error + agent" where
  "receive_all e now [] s = Inr s"
| "receive_all e now ((t, r) # rest) s =
     (let s1 = socket_receive t r s
      in bind_err (case r of None \<Rightarrow> Inr s1 | Some message \<Rightarrow> dispatch e now message s1)
           (receive_all e now rest))"

text \<open>
  Lines 489-508. Modelled from the spec: \<^verbatim>\<open>Socket.close\<close> and \<^verbatim>\<open>Socket.communicate\<close>
  (section 4.A) tear the connection down and establish it again; the model records the
  two calls and leaves the flags of the socket as they are.
\<close>

fun reconnect_timed_out ::
  "socket_type list \<Rightarrow> bool \<times> bool \<times> agent \<Rightarrow> bool \<times> bool \<times> agent" where
  "reconnect_timed_out [] x = x"
| "reconnect_timed_out (t # ts) (endpoint_resync_needed, acl_resync_needed, s) =
     reconnect_timed_out ts
       (if timed_out (sockets s t) then
          (let s1 = emit (Communicate t) (emit (Close t) (emit (LogWarning ''Socket timed out'') s));
               s2 = (if t = TYPE_EP_REQ then s1\<lparr>endpoint_queue := []\<rparr>
                     else if t = TYPE_ACL_REQ then s1\<lparr>acl_queue := []\<rparr>
                     else s1)
           in if t \<in> EP_TYPES then (True, acl_resync_needed, s2)
              else (endpoint_resync_needed, True, s2))
        else (endpoint_resync_needed, acl_resync_needed, s))"

text \<open>Lines 510-522: \<^verbatim>\<open>pop()\<close> takes the rightmost element of a deque.\<close>

definition send_queued :: "agent \<Rightarrow> agent" where
  "send_queued s =
     (let s1 = (if endpoint_queue s \<noteq> [] \<and> \<not> request_outstanding (sockets s TYPE_EP_REQ)
                then socket_send TYPE_EP_REQ (last (endpoint_queue s))
                       (s\<lparr>endpoint_queue := butlast (endpoint_queue s)\<rparr>)
                else s)
      in if acl_queue s1 \<noteq> [] \<and> \<not> request_outstanding (sockets s1 TYPE_ACL_REQ)
         then socket_send TYPE_ACL_REQ (last (acl_queue s1))
                (s1\<lparr>acl_queue := butlast (acl_queue s1)\<rparr>)
         else s1)"

text \<open>
  The condition of line 525: \<^verbatim>\<open>time.time() - self.resync_time\<close> is evaluated only when
  \<^verbatim>\<open>self.resync_id\<close> is None, and raises when \<^verbatim>\<open>self.resync_time\<close> is None.
\<close>

definition resync_due :: "env \<Rightarrow> real \<Rightarrow> agent \<Rightarrow> error + bool" where
  "resync_due e now s =
     (if resync_id s = None
      then (case resync_time s of
              None \<Rightarrow> Inl TypeError
            | Some t \<Rightarrow> Inr (now - t > RESYNC_INT_SEC e))
      else Inr False)"

text \<open>
  The body of \<^verbatim>\<open>while True\<close>, lines 462-537. The sockets are visited in one fixed
  order; one reading of the clock serves the whole iteration.
\<close>

definition run_iteration ::
  "env \<Rightarrow> real \<Rightarrow> string \<Rightarrow> (socket_type \<times> message option) list \<Rightarrow> agent \<Rightarrow> error + agent"
  where
  "run_iteration e now uuid inbox s =
     bind_err (receive_all e now inbox s) (\<lambda>s1.
       let (endpoint_resync_needed, acl_resync_needed, s2) =
             reconnect_timed_out [TYPE_EP_REQ, TYPE_EP_REP, TYPE_ACL_REQ, TYPE_ACL_SUB]
               (False, False, s1);
           s3 = send_queued s2
       in bind_err (resync_due e now s3) (\<lambda>due.
            if endpoint_resync_needed \<or> due then resync_endpoints e uuid now s3
            else if acl_resync_needed then resync_acls now s3
            else Inr s3))"

subsection \<open>Example states\<close>

text \<open>
  Concrete inputs for the evaluations below: an environment whose endpoint constructor
  takes the first eleven characters of the id as the suffix, an agent that knows no
  endpoint and has no resync in flight, and an endpoint record.
\<close>

definition example_env :: env where
  "example_env =
     \<lparr>hostname = ''host1'', RESYNC_INT_SEC = 30,
      new_endpoint = (\<lambda>i m. \<lparr>ep_id = i, suffix = take 11 i, mac = m, addresses = {},
                              state = ''enabled'', pending_resync = False, need_acls = True\<rparr>)\<rparr>"

definition idle_agent :: agent where
  "idle_agent =
     \<lparr>sockets = (\<lambda>t. \<lparr>request_outstanding = False, timed_out = False\<rparr>),
      endpoints = [], resync_id = None, resync_recd = None, resync_expected = VNone,
      resync_time = None, endpoint_queue = [], acl_queue = [], rules = [], calls = []\<rparr>"

definition example_endpoint :: "string \<Rightarrow> bool \<Rightarrow> endpoint" where
  "example_endpoint i pending =
     \<lparr>ep_id = i, suffix = i, mac = ''aa:bb:cc:00:00:01'', addresses = {}, state = ''enabled'',
      pending_resync = pending, need_acls = False\<rparr>"

definition created_message :: "string \<Rightarrow> val \<Rightarrow> message" where
  "created_message i r =
     Message TYPE_EP_CR
       [(''endpoint_id'', VStr i), (''resync_id'', r), (''issued'', VFloat 0),
        (''mac'', VStr ''aa:bb:cc:00:00:01''), (''state'', VStr ''enabled''),
        (''addrs'', VList [VStr ''10.0.0.1''])]"

text \<open>
  A RESYNCSTATE reply, an agent with a resync in flight, an ACLUPDATE publication for an
  endpoint id, an ENDPOINTUPDATED message and an ENDPOINTDESTROYED message.
\<close>

definition resync_reply :: "val \<Rightarrow> int \<Rightarrow> message" where
  "resync_reply rc n =
     Message TYPE_RESYNC [(''rc'', rc), (''message'', VStr []), (''endpoint_count'', VInt n)]"

definition collecting_agent :: "string \<Rightarrow> int \<Rightarrow> val \<Rightarrow> agent" where
  "collecting_agent r recd expected =
     idle_agent\<lparr>resync_id := Some r, resync_recd := Some recd, resync_expected := expected\<rparr>"

definition aclupdate_message :: "string \<Rightarrow> message" where
  "aclupdate_message i =
     \<lparr>mtype = TYPE_ACL_UPD, msg_fields = [(''acls'', VDict [])], msg_endpoint_id = i\<rparr>"

definition updated_message :: "string \<Rightarrow> message" where
  "updated_message i =
     Message TYPE_EP_UP
       [(''endpoint_id'', VStr i), (''issued'', VFloat 0),
        (''mac'', VStr ''aa:bb:cc:00:00:01''), (''state'', VStr ''enabled''),
        (''addrs'', VList [VStr ''10.0.0.1''])]"

definition destroyed_message :: "string \<Rightarrow> message" where
  "destroyed_message i = Message TYPE_EP_RM [(''endpoint_id'', VStr i), (''issued'', VFloat 0)]"

subsection \<open>Vocabulary of the properties\<close>

text \<open>
  The suffixes of the endpoints in the registry (\<^verbatim>\<open>known_ids\<close> of line 206), and the
  installed suffixes that are left when \<^verbatim>\<open>ep.remove()\<close> has run for the endpoints that a
  successful completion finds pending.
\<close>

definition known_suffixes :: "agent \<Rightarrow> string set" where
  "known_suffixes s = set (map (\<lambda>(k, ep). suffix ep) (endpoints s))"

definition pruned_rules :: "bool \<Rightarrow> agent \<Rightarrow> string list" where
  "pruned_rules successful s =
     (if successful
      then filter (\<lambda>r. r \<notin> suffix ` {ep \<in> set (map snd (endpoints s)). pending_resync ep}) (rules s)
      else rules s)"

text \<open>
  What a handler needs of a message in order to return: every field it reads is
  present, with the type the handler uses it at; ENDPOINTUPDATED and ACLUPDATE name an
  endpoint of the registry; and, for ENDPOINTCREATED, the counter \<^verbatim>\<open>resync_recd\<close> is set
  while a resync is in flight (which \<^verbatim>\<open>resync_endpoints\<close> and
  \<^verbatim>\<open>complete_endpoint_resync\<close> keep true, since they set and clear both together).
\<close>

definition has_field :: "string \<Rightarrow> message \<Rightarrow> bool" where
  "has_field k m = (map_of (msg_fields m) k \<noteq> None)"

definition has_ascii_field :: "string \<Rightarrow> message \<Rightarrow> bool" where
  "has_ascii_field k m =
     (case map_of (msg_fields m) k of
        Some (VStr v) \<Rightarrow> list_all (\<lambda>c. (of_char c :: nat) < 128) v
      | _ \<Rightarrow> False)"

definition names_endpoint :: "agent \<Rightarrow> message \<Rightarrow> bool" where
  "names_endpoint s m =
     (case map_of (msg_fields m) ''endpoint_id'' of
        Some (VStr i) \<Rightarrow> map_of (endpoints s) i \<noteq> None
      | _ \<Rightarrow> False)"

definition update_fields_present :: "message \<Rightarrow> bool" where
  "update_fields_present m =
     ((case map_of (msg_fields m) ''endpoint_id'' of Some (VStr i) \<Rightarrow> True | _ \<Rightarrow> False)
      \<and> has_field ''issued'' m \<and> has_ascii_field ''mac'' m \<and> has_ascii_field ''state'' m
      \<and> (case map_of (msg_fields m) ''addrs'' of Some (VList as) \<Rightarrow> True | _ \<Rightarrow> False))"

definition fields_present :: "agent \<Rightarrow> message \<Rightarrow> bool" where
  "fields_present s m =
     (case mtype m of
        TYPE_HEARTBEAT \<Rightarrow> True
      | TYPE_EP_CR \<Rightarrow>
          update_fields_present m \<and> has_field ''resync_id'' m
          \<and> (resync_id s = None \<or> resync_recd s \<noteq> None)
      | TYPE_EP_UP \<Rightarrow> update_fields_present m \<and> names_endpoint s m
      | TYPE_EP_RM \<Rightarrow>
          (case map_of (msg_fields m) ''endpoint_id'' of Some (VStr i) \<Rightarrow> True | _ \<Rightarrow> False)
          \<and> has_field ''issued'' m
      | TYPE_RESYNC \<Rightarrow>
          has_field ''endpoint_count'' m \<and> has_field ''rc'' m \<and> has_field ''message'' m
      | TYPE_GET_ACL \<Rightarrow> has_field ''rc'' m \<and> has_field ''message'' m
      | TYPE_ACL_UPD \<Rightarrow> map_of (endpoints s) (msg_endpoint_id m) \<noteq> None \<and> has_field ''acls'' m
      | TYPE_OTHER t \<Rightarrow> False)"

section \<open>Resync completion\<close>

text \<open>Evaluation of the definitions on concrete inputs unfolds these.\<close>

lemmas eval_defs =
  handle_endpointcreated_def handle_endpointupdated_def handle_endpointdestroyed_def
  handle_heartbeat_def handle_resyncstate_def handle_getaclstate_def handle_aclupdate_def
  dispatch_def create_endpoint_def update_endpoint_def read_addrs_def increment_recd_def
  str_field_def field_def encode_ascii_def send_request_def socket_send_def socket_receive_def
  program_endpoint_def update_acls_def REQUEST_TYPES_def EP_TYPES_def
  run_iteration_def send_queued_def resync_due_def resync_endpoints_def resync_acls_def
  created_message_def collecting_agent_def idle_agent_def example_endpoint_def
  example_env_def Message_def success_reply_def get_acl_message_def Let_def

lemma emit_simps [simp]:
  "endpoints (emit c s) = endpoints s" "rules (emit c s) = rules s"
  "calls (emit c s) = calls s @ [c]" "resync_id (emit c s) = resync_id s"
  "resync_recd (emit c s) = resync_recd s" "resync_expected (emit c s) = resync_expected s"
  "resync_time (emit c s) = resync_time s" "sockets (emit c s) = sockets s"
  "endpoint_queue (emit c s) = endpoint_queue s" "acl_queue (emit c s) = acl_queue s"
  by (simp_all add: emit_def)

lemma remove_pending_fields [simp]:
  "endpoints (remove_pending eps s) = endpoints s"
  "resync_id (remove_pending eps s) = resync_id s"
  "resync_recd (remove_pending eps s) = resync_recd s"
  "resync_expected (remove_pending eps s) = resync_expected s"
  "resync_time (remove_pending eps s) = resync_time s"
  "sockets (remove_pending eps s) = sockets s"
  "endpoint_queue (remove_pending eps s) = endpoint_queue s"
  "acl_queue (remove_pending eps s) = acl_queue s"
  by (induction eps arbitrary: s; simp add: ep_remove_def)+

lemma remove_pending_rules:
  "rules (remove_pending eps s) =
     filter (\<lambda>r. r \<notin> suffix ` {ep \<in> set eps. pending_resync ep}) (rules s)"
proof (induction eps arbitrary: s)
  case Nil
  then show ?case by simp
next
  case (Cons ep eps)
  have "removeAll x xs = filter (\<lambda>r. r \<noteq> x) xs" for x :: string and xs
    by (induction xs) auto
  then show ?case
    using Cons.IH by (auto simp: ep_remove_def intro!: filter_cong)
qed

lemma remove_pending_calls:
  "calls (remove_pending eps s) =
     calls s @ map (\<lambda>ep. Remove (ep_id ep)) (filter pending_resync eps)"
  by (induction eps arbitrary: s) (simp_all add: ep_remove_def)

lemma remove_unknown_rules_fields [simp]:
  "endpoints (remove_unknown_rules K ids s) = endpoints s"
  "resync_id (remove_unknown_rules K ids s) = resync_id s"
  "resync_recd (remove_unknown_rules K ids s) = resync_recd s"
  "resync_expected (remove_unknown_rules K ids s) = resync_expected s"
  "resync_time (remove_unknown_rules K ids s) = resync_time s"
  "sockets (remove_unknown_rules K ids s) = sockets s"
  "endpoint_queue (remove_unknown_rules K ids s) = endpoint_queue s"
  "acl_queue (remove_unknown_rules K ids s) = acl_queue s"
  by (induction ids arbitrary: s; simp add: del_rules_def)+

lemma remove_unknown_rules_rules:
  "rules (remove_unknown_rules K ids s) =
     filter (\<lambda>r. r \<in> K \<or> r \<notin> set ids) (rules s)"
proof (induction ids arbitrary: s)
  case Nil
  then show ?case by simp
next
  case (Cons i ids)
  have "removeAll x xs = filter (\<lambda>r. r \<noteq> x) xs" for x :: string and xs
    by (induction xs) auto
  then show ?case
    using Cons.IH by (auto simp: del_rules_def intro!: filter_cong)
qed

lemma remove_unknown_rules_calls:
  "calls (remove_unknown_rules K ids s) =
     calls s @ concat (map (\<lambda>i. [LogWarning ''Removing rules for removed object'', DelRules i])
                         (filter (\<lambda>i. i \<notin> K) ids))"
  by (induction ids arbitrary: s) (simp_all add: del_rules_def)

lemma complete_fields:
  "endpoints (complete_endpoint_resync now b s) = endpoints s"
  "resync_id (complete_endpoint_resync now b s) = None"
  "resync_recd (complete_endpoint_resync now b s) = None"
  "resync_expected (complete_endpoint_resync now b s) = VNone"
  "resync_time (complete_endpoint_resync now b s) = Some (now * 1000)"
  "sockets (complete_endpoint_resync now b s) = sockets s"
  "endpoint_queue (complete_endpoint_resync now b s) = endpoint_queue s"
  "acl_queue (complete_endpoint_resync now b s) = acl_queue s"
  by (simp_all add: complete_endpoint_resync_def list_eps_with_rules_def Let_def)

lemma complete_rules:
  "rules (complete_endpoint_resync now b s) =
     filter (\<lambda>r. r \<in> known_suffixes s) (pruned_rules b s)"
  by (auto simp: complete_endpoint_resync_def list_eps_with_rules_def Let_def
      remove_unknown_rules_rules remove_pending_rules known_suffixes_def pruned_rules_def
      intro!: filter_cong)

lemma complete_calls:
  "calls (complete_endpoint_resync now b s) =
     calls s
     @ (if b then map (\<lambda>ep. Remove (ep_id ep)) (filter pending_resync (map snd (endpoints s)))
        else [])
     @ [ListEpsWithRules]
     @ concat (map (\<lambda>i. [LogWarning ''Removing rules for removed object'', DelRules i])
                 (filter (\<lambda>i. i \<notin> known_suffixes s) (remdups (pruned_rules b s))))"
  by (simp add: complete_endpoint_resync_def list_eps_with_rules_def Let_def
      remove_unknown_rules_calls remove_pending_calls remove_pending_rules known_suffixes_def pruned_rules_def)

text \<open>
  Claim C10. Every resync completion, the unsuccessful one included, sets
  \<^verbatim>\<open>resync_time\<close>, clears \<^verbatim>\<open>resync_id\<close>, queries \<^verbatim>\<open>list_eps_with_rules()\<close> once and
  calls \<^verbatim>\<open>del_rules\<close> for exactly the installed suffixes that belong to no registry
  endpoint, so that the installed suffixes that remain are those of registry endpoints.
  The registry itself is never changed. With \<open>successful = False\<close> no \<^verbatim>\<open>ep.remove()\<close> is
  called: the trace grows by the query and the deletions only.
\<close>

theorem complete_endpoint_resync_always_reconciles:
  "resync_time (complete_endpoint_resync now successful s) = Some (now * 1000)
   \<and> resync_id (complete_endpoint_resync now successful s) = None
   \<and> endpoints (complete_endpoint_resync now successful s) = endpoints s
   \<and> rules (complete_endpoint_resync now successful s) =
       filter (\<lambda>r. r \<in> known_suffixes s) (pruned_rules successful s)
   \<and> calls (complete_endpoint_resync now successful s) =
       calls s
       @ (if successful
          then map (\<lambda>ep. Remove (ep_id ep)) (filter pending_resync (map snd (endpoints s)))
          else [])
       @ [ListEpsWithRules]
       @ concat (map (\<lambda>i. [LogWarning ''Removing rules for removed object'', DelRules i])
                   (filter (\<lambda>i. i \<notin> known_suffixes s) (remdups (pruned_rules successful s))))
   \<and> rules (complete_endpoint_resync now False s) = filter (\<lambda>r. r \<in> known_suffixes s) (rules s)
   \<and> calls (complete_endpoint_resync now False s) =
       calls s @ [ListEpsWithRules]
       @ concat (map (\<lambda>i. [LogWarning ''Removing rules for removed object'', DelRules i])
                   (filter (\<lambda>i. i \<notin> known_suffixes s) (remdups (rules s))))"
proof -
  have "pruned_rules False s = rules s"
    by (simp add: pruned_rules_def)
  then show ?thesis
    using complete_rules [of now False s] complete_calls [of now False s]
    by (simp add: complete_fields complete_rules complete_calls)
qed

text \<open>
  What the completion does establish: afterwards every installed rule-chain suffix is
  the suffix of an endpoint in the registry, and every installed suffix was installed
  before.
\<close>

lemma installed_rules_within_registry:
  "set (rules (complete_endpoint_resync now True s))
     \<subseteq> known_suffixes (complete_endpoint_resync now True s)
   \<and> set (rules (complete_endpoint_resync now True s)) \<subseteq> set (rules s)"
  by (auto simp: complete_rules known_suffixes_def complete_fields pruned_rules_def)

text \<open>
  When no endpoint is pending and every endpoint of the registry has its rule chain, a
  successful completion leaves exactly the chains of the registry. When an endpoint is
  pending, it does not: \<^verbatim>\<open>ep.remove()\<close> takes the chain away and the endpoint stays in
  the registry.
\<close>

lemma completion_keeps_equality_without_pending:
  assumes "list_all (\<lambda>(k, ep). \<not> pending_resync ep \<and> suffix ep \<in> set (rules s)) (endpoints s)"
  shows "set (rules (complete_endpoint_resync now True s))
           = known_suffixes (complete_endpoint_resync now True s)"
  using assms
  by (auto simp: complete_rules pruned_rules_def known_suffixes_def complete_fields list_all_iff)

lemma completion_breaks_equality_when_pending:
  assumes "(k, ep) \<in> set (endpoints s)" "pending_resync ep"
  shows "set (rules (complete_endpoint_resync now True s))
           \<noteq> known_suffixes (complete_endpoint_resync now True s)"
proof -
  have "suffix ep \<in> known_suffixes (complete_endpoint_resync now True s)"
    using assms(1) by (force simp: known_suffixes_def complete_fields)
  moreover have "suffix ep \<notin> set (rules (complete_endpoint_resync now True s))"
    using assms by (force simp: complete_rules pruned_rules_def)
  ultimately show ?thesis by blast
qed

text \<open>
  Claim C1 at a concrete input: the registry holds one endpoint \<open>e2\<close> that is still
  pending, and its rule chain is installed. The successful completion calls
  \<^verbatim>\<open>ep.remove()\<close> for it, but the endpoint stays in the registry with
  \<open>pending_resync\<close> true, and no unsubscribe is made on the ACL SUB socket.
\<close>

theorem pending_endpoint_stays_registered:
  "endpoints (complete_endpoint_resync 5 True
      (idle_agent\<lparr>endpoints := [(''e2'', example_endpoint ''e2'' True)], rules := [''e2'']\<rparr>))
     = [(''e2'', example_endpoint ''e2'' True)]
   \<and> calls (complete_endpoint_resync 5 True
      (idle_agent\<lparr>endpoints := [(''e2'', example_endpoint ''e2'' True)], rules := [''e2'']\<rparr>))
     = [Remove ''e2'', ListEpsWithRules]
   \<and> pending_resync (example_endpoint ''e2'' True)"
  by (simp add: complete_fields complete_calls known_suffixes_def pruned_rules_def
      idle_agent_def example_endpoint_def)

section \<open>Starting a resync\<close>

text \<open>
  Claim C6. \<^verbatim>\<open>resync_endpoints()\<close> always returns. It stores the new token as
  \<^verbatim>\<open>resync_id\<close> (a string, never None), sets \<^verbatim>\<open>resync_recd\<close> to zero, marks every
  endpoint of the registry as pending and changes nothing else of the registry, and
  empties both queues. Then it issues exactly one RESYNC request carrying the token on
  EP_REQ: the request is sent when the socket is idle, and is the only element of the
  endpoint queue when a request is outstanding. The ACL queue is left empty.
\<close>

theorem resync_endpoints_effect:
  "\<exists>s'. resync_endpoints e uuid now s = Inr s'
     \<and> resync_id s' = Some uuid
     \<and> resync_recd s' = Some 0
     \<and> endpoints s' = map (\<lambda>(k, ep). (k, ep\<lparr>pending_resync := True\<rparr>)) (endpoints s)
     \<and> map fst (endpoints s') = map fst (endpoints s)
     \<and> list_all (\<lambda>(k, ep). pending_resync ep) (endpoints s')
     \<and> acl_queue s' = []
     \<and> mtype (resync_message e uuid now) = TYPE_RESYNC
     \<and> map_of (msg_fields (resync_message e uuid now)) ''resync_id'' = Some (VStr uuid)
     \<and> (if request_outstanding (sockets s TYPE_EP_REQ)
         then endpoint_queue s' = [resync_message e uuid now] \<and> calls s' = calls s
         else endpoint_queue s' = []
              \<and> calls s' = calls s @ [Send TYPE_EP_REQ (resync_message e uuid now)])"
  by (auto simp: resync_endpoints_def send_request_def REQUEST_TYPES_def socket_send_def
      resync_message_def Message_def Let_def list_all_iff split: prod.splits)

theorem resync_endpoints_effect_witness:
  "resync_endpoints example_env ''R1'' 5
     (idle_agent\<lparr>endpoints := [(''e1'', example_endpoint ''e1'' False)],
                 endpoint_queue := [Message TYPE_HEARTBEAT []],
                 acl_queue := [get_acl_message ''e1'' 4]\<rparr>)
   = Inr (idle_agent\<lparr>endpoints := [(''e1'', example_endpoint ''e1'' True)],
            resync_id := Some ''R1'', resync_recd := Some 0, resync_expected := VInt 0,
            sockets := (sockets idle_agent)
               (TYPE_EP_REQ := \<lparr>request_outstanding = True, timed_out = False\<rparr>),
            calls := [Send TYPE_EP_REQ (resync_message example_env ''R1'' 5)]\<rparr>)"
  using resync_endpoints_effect [of example_env "''R1''" 5
     "idle_agent\<lparr>endpoints := [(''e1'', example_endpoint ''e1'' False)],
                 endpoint_queue := [Message TYPE_HEARTBEAT []],
                 acl_queue := [get_acl_message ''e1'' 4]\<rparr>"]
  by (simp add: resync_endpoints_def send_request_def REQUEST_TYPES_def socket_send_def
      Let_def idle_agent_def example_endpoint_def emit_def)

section \<open>The RESYNCSTATE reply\<close>

lemma field_present: "map_of fs k = Some v \<Longrightarrow> field k fs = Inr v"
  by (simp add: field_def)

lemma field_absent: "map_of fs k = None \<Longrightarrow> field k fs = Inl (KeyError k)"
  by (simp add: field_def)

lemma str_field_present: "map_of fs k = Some (VStr v) \<Longrightarrow> str_field k fs = Inr v"
  by (simp add: str_field_def field_def bind_err_def)

lemma bind_err_simps [simp]:
  "bind_err (Inr x) f = f x" "bind_err (Inl e) f = Inl e"
  by (simp_all add: bind_err_def)

text \<open>
  Claim C4. For a RESYNCSTATE reply that carries its three fields, with an integer
  \<^verbatim>\<open>endpoint_count\<close>: if \<^verbatim>\<open>rc\<close> is not SUCCESS, the completion runs with
  \<open>successful = False\<close>; if \<^verbatim>\<open>rc\<close> is SUCCESS and the count is zero or equals
  \<^verbatim>\<open>resync_recd\<close>, the completion runs with \<open>successful = True\<close>; otherwise
  \<^verbatim>\<open>resync_expected\<close> becomes the count and nothing else changes, so no completion
  runs. The last case covers a count above a counter that is not negative.
\<close>

theorem handle_resyncstate_cases:
  assumes "map_of (msg_fields m) ''endpoint_count'' = Some (VInt n)"
    and "map_of (msg_fields m) ''rc'' = Some rc"
    and "map_of (msg_fields m) ''message'' = Some txt"
  shows "(rc \<noteq> VStr ''SUCCESS'' \<longrightarrow>
            handle_resyncstate now m s =
              Inr (complete_endpoint_resync now False (emit (LogError ''Resync request refused'') s)))
       \<and> (rc = VStr ''SUCCESS'' \<and> (n = 0 \<or> resync_recd s = Some n) \<longrightarrow>
            handle_resyncstate now m s = Inr (complete_endpoint_resync now True s))
       \<and> (rc = VStr ''SUCCESS'' \<and> n \<noteq> 0 \<and> resync_recd s \<noteq> Some n \<longrightarrow>
            handle_resyncstate now m s = Inr (s\<lparr>resync_expected := VInt n\<rparr>))
       \<and> (\<forall>k. rc = VStr ''SUCCESS'' \<and> resync_recd s = Some k \<and> 0 \<le> k \<and> k < n \<longrightarrow>
            handle_resyncstate now m s = Inr (s\<lparr>resync_expected := VInt n\<rparr>))"
proof -
  have eq: "eq_count (VInt n) (resync_recd s) = (resync_recd s = Some n)"
    by (cases "resync_recd s") auto
  show ?thesis
    using assms by (auto simp: handle_resyncstate_def field_present eq)
qed

theorem handle_resyncstate_cases_witness:
  "handle_resyncstate 5 (resync_reply (VStr ''FAILED'') 3) (collecting_agent ''R1'' 1 (VInt 0))
     = Inr (complete_endpoint_resync 5 False
              (emit (LogError ''Resync request refused'') (collecting_agent ''R1'' 1 (VInt 0))))
   \<and> handle_resyncstate 5 (resync_reply (VStr ''SUCCESS'') 0) (collecting_agent ''R1'' 1 (VInt 0))
     = Inr (complete_endpoint_resync 5 True (collecting_agent ''R1'' 1 (VInt 0)))
   \<and> handle_resyncstate 5 (resync_reply (VStr ''SUCCESS'') 1) (collecting_agent ''R1'' 1 (VInt 0))
     = Inr (complete_endpoint_resync 5 True (collecting_agent ''R1'' 1 (VInt 0)))
   \<and> handle_resyncstate 5 (resync_reply (VStr ''SUCCESS'') 3) (collecting_agent ''R1'' 1 (VInt 0))
     = Inr ((collecting_agent ''R1'' 1 (VInt 0))\<lparr>resync_expected := VInt 3\<rparr>)
   \<and> resync_id (complete_endpoint_resync 5 True (collecting_agent ''R1'' 1 (VInt 0))) = None
   \<and> resync_id ((collecting_agent ''R1'' 1 (VInt 0))\<lparr>resync_expected := VInt 3\<rparr>) = Some ''R1''"
proof -
  let ?s = "collecting_agent ''R1'' 1 (VInt 0)"
  have f: "map_of (msg_fields (resync_reply rc n)) ''endpoint_count'' = Some (VInt n)"
    "map_of (msg_fields (resync_reply rc n)) ''rc'' = Some rc"
    "map_of (msg_fields (resync_reply rc n)) ''message'' = Some (VStr [])" for rc n
    by (simp_all add: resync_reply_def Message_def)
  have r: "resync_recd ?s = Some 1" "resync_id ?s = Some ''R1''"
    by (simp_all add: collecting_agent_def idle_agent_def)
  show ?thesis
    using handle_resyncstate_cases [where now = 5 and s = ?s, OF f [of "VStr ''FAILED''" 3]]
      handle_resyncstate_cases [where now = 5 and s = ?s, OF f [of "VStr ''SUCCESS''" 0]]
      handle_resyncstate_cases [where now = 5 and s = ?s, OF f [of "VStr ''SUCCESS''" 1]]
      handle_resyncstate_cases [where now = 5 and s = ?s, OF f [of "VStr ''SUCCESS''" 3]]
    by (simp add: r complete_fields)
qed

section \<open>ENDPOINTCREATED\<close>

lemma encode_ascii_ok: "list_all (\<lambda>c. (of_char c :: nat) < 128) v \<Longrightarrow> encode_ascii v = Inr v"
  by (simp add: encode_ascii_def)

lemma update_endpoint_ok:
  assumes "map_of fs ''mac'' = Some (VStr mc)" "list_all (\<lambda>c. (of_char c :: nat) < 128) mc"
    and "map_of fs ''state'' = Some (VStr st)" "list_all (\<lambda>c. (of_char c :: nat) < 128) st"
    and "map_of fs ''addrs'' = Some (VList as)"
  shows "update_endpoint key ep fs s =
           Inr (program_endpoint (ep\<lparr>addresses := set (map Address as), mac := mc\<rparr>)
                  (s\<lparr>endpoints := AList.update key (ep\<lparr>addresses := set (map Address as), mac := mc\<rparr>)
                                     (endpoints s)\<rparr>))"
  using assms
  by (simp add: update_endpoint_def str_field_present encode_ascii_ok read_addrs_def Let_def)

lemma stale_token:
  assumes "\<forall>a. resync_id s = Some a \<longrightarrow> r \<noteq> VStr a"
  shows "\<not> (truthy r \<and> eq_token r (resync_id s))"
  using assms by (cases r; cases "resync_id s") auto

text \<open>
  Claim C5. An ENDPOINTCREATED message that carries its fields and whose
  \<^verbatim>\<open>resync_id\<close> is not the active one (any value when no resync is in flight) is
  handled as a plain endpoint update: the handler returns, the endpoint is in the
  registry afterwards (created when it was unknown) with the message's MAC and
  addresses, the endpoint is programmed and the reply is sent on EP_REP. The counter
  \<^verbatim>\<open>resync_recd\<close> and the rest of the resync context stay as they were, and the calls
  made are those of the update only: no completion runs.
\<close>

theorem stale_endpointcreated_is_plain_update:
  assumes id: "map_of (msg_fields m) ''endpoint_id'' = Some (VStr eid)"
    and token: "map_of (msg_fields m) ''resync_id'' = Some r"
    and issued: "map_of (msg_fields m) ''issued'' = Some i"
    and mac: "map_of (msg_fields m) ''mac'' = Some (VStr mc)"
             "list_all (\<lambda>c. (of_char c :: nat) < 128) mc"
    and state: "map_of (msg_fields m) ''state'' = Some (VStr st)"
               "list_all (\<lambda>c. (of_char c :: nat) < 128) st"
    and addrs: "map_of (msg_fields m) ''addrs'' = Some (VList as)"
    and stale: "\<forall>a. resync_id s = Some a \<longrightarrow> r \<noteq> VStr a"
  shows "\<exists>s'. handle_endpointcreated e now m s = Inr s'
          \<and> resync_recd s' = resync_recd s
          \<and> resync_id s' = resync_id s
          \<and> resync_expected s' = resync_expected s
          \<and> resync_time s' = resync_time s
          \<and> map_of (endpoints s') eid =
              Some ((case map_of (endpoints s) eid of
                       Some ep \<Rightarrow> ep | None \<Rightarrow> new_endpoint e eid mc)
                    \<lparr>addresses := set (map Address as), mac := mc\<rparr>)
          \<and> calls s' =
              calls s
              @ (case map_of (endpoints s) eid of
                   Some ep \<Rightarrow>
                     (if r \<noteq> VNone
                      then [LogWarning ''Received endpoint creation for existing endpoint'']
                      else [])
                     @ [ProgramEndpoint (ep_id ep)]
                 | None \<Rightarrow>
                     [Subscribe eid]
                     @ (if request_outstanding (sockets s TYPE_ACL_REQ) then []
                        else [Send TYPE_ACL_REQ (get_acl_message eid now)])
                     @ [ProgramEndpoint (ep_id (new_endpoint e eid mc))])
              @ [Send TYPE_EP_REP success_reply]"
proof (cases "map_of (endpoints s) eid")
  case None
  show ?thesis
    using None id token issued mac stale_token [OF stale]
    apply (simp add: handle_endpointcreated_def str_field_present field_present
        create_endpoint_def send_request_def REQUEST_TYPES_def Let_def
        update_endpoint_ok [OF mac state addrs])
    apply (auto simp: socket_send_def program_endpoint_def REQUEST_TYPES_def update_conv')
    done
next
  case (Some ep)
  show ?thesis
    using Some id token issued mac stale_token [OF stale]
    apply (simp add: handle_endpointcreated_def str_field_present field_present Let_def
        update_endpoint_ok [OF mac state addrs])
    apply (auto simp: socket_send_def program_endpoint_def REQUEST_TYPES_def update_conv')
    done
qed

theorem stale_endpointcreated_is_plain_update_witness:
  "\<exists>s'. handle_endpointcreated example_env 7 (created_message ''e1'' (VStr ''R0''))
           (collecting_agent ''R1'' 0 (VInt 1)) = Inr s'
     \<and> resync_recd s' = Some 0
     \<and> resync_id s' = Some ''R1''
     \<and> map_of (endpoints s') ''e1'' =
         Some (new_endpoint example_env ''e1'' ''aa:bb:cc:00:00:01''
                 \<lparr>addresses := {Address (VStr ''10.0.0.1'')}, mac := ''aa:bb:cc:00:00:01''\<rparr>)
     \<and> calls s' =
         [Subscribe ''e1'', Send TYPE_ACL_REQ (get_acl_message ''e1'' 7),
          ProgramEndpoint ''e1'', Send TYPE_EP_REP success_reply]"
proof -
  let ?m = "created_message ''e1'' (VStr ''R0'')"
  let ?s = "collecting_agent ''R1'' 0 (VInt 1)"
  have f: "map_of (msg_fields ?m) ''endpoint_id'' = Some (VStr ''e1'')"
    "map_of (msg_fields ?m) ''resync_id'' = Some (VStr ''R0'')"
    "map_of (msg_fields ?m) ''issued'' = Some (VFloat 0)"
    "map_of (msg_fields ?m) ''mac'' = Some (VStr ''aa:bb:cc:00:00:01'')"
    "list_all (\<lambda>c. (of_char c :: nat) < 128) ''aa:bb:cc:00:00:01''"
    "map_of (msg_fields ?m) ''state'' = Some (VStr ''enabled'')"
    "list_all (\<lambda>c. (of_char c :: nat) < 128) ''enabled''"
    "map_of (msg_fields ?m) ''addrs'' = Some (VList [VStr ''10.0.0.1''])"
    by (simp_all add: created_message_def Message_def)
  have stale: "\<forall>a. resync_id ?s = Some a \<longrightarrow> VStr ''R0'' \<noteq> VStr a"
    by (simp add: collecting_agent_def idle_agent_def)
  have s: "resync_recd ?s = Some 0" "resync_id ?s = Some ''R1''" "endpoints ?s = []"
    "calls ?s = []" "\<not> request_outstanding (sockets ?s TYPE_ACL_REQ)"
    by (simp_all add: collecting_agent_def idle_agent_def)
  show ?thesis
    using stale_endpointcreated_is_plain_update [OF f stale, of example_env 7]
    by (auto simp: s example_env_def)
qed

text \<open>
  The handler never assigns \<open>pending_resync\<close>: an endpoint that is in the registry when
  ENDPOINTCREATED arrives keeps the value of the flag, whatever the message's token.
\<close>

lemma update_endpoint_keeps_pending:
  assumes "update_endpoint key ep fs s = Inr s'"
  shows "map_of (endpoints s') key =
           Some (ep\<lparr>addresses := addresses (the (map_of (endpoints s') key)),
                    mac := mac (the (map_of (endpoints s') key))\<rparr>)"
  using assms
  by (auto simp: update_endpoint_def bind_err_def program_endpoint_def Let_def update_conv'
      split: sum.splits)

lemma created_never_clears_pending:
  assumes "map_of (endpoints s) eid = Some ep"
    and "map_of (msg_fields m) ''endpoint_id'' = Some (VStr eid)"
    and "handle_endpointcreated e now m s = Inr s'"
  shows "\<exists>ep'. map_of (endpoints s') eid = Some ep' \<and> pending_resync ep' = pending_resync ep"
proof -
  have id: "str_field ''endpoint_id'' (msg_fields m) = Inr eid"
    using assms(2) by (rule str_field_present)
  have "\<exists>s0 s2. update_endpoint eid ep (msg_fields m) s0 = Inr s2
            \<and> endpoints s' = endpoints s2"
    using assms(3) unfolding handle_endpointcreated_def id bind_err_simps
    by (auto simp: bind_err_def assms(1) Let_def socket_send_def REQUEST_TYPES_def
        increment_recd_def complete_fields split: sum.splits if_splits option.splits)
      blast+
  then obtain s0 s2 where u: "update_endpoint eid ep (msg_fields m) s0 = Inr s2"
    and e: "endpoints s' = endpoints s2"
    by blast
  from update_endpoint_keeps_pending [OF u] show ?thesis
    unfolding e by (metis endpoint.select_convs(6) endpoint.surjective endpoint.update_convs(3,4))
qed

text \<open>
  Claim C3 at a concrete input: the registry holds \<open>e1\<close> with \<open>pending_resync\<close> true,
  the resync \<open>R1\<close> is in flight with two endpoints expected, and ENDPOINTCREATED for
  \<open>e1\<close> arrives with \<open>resync_id = R1\<close>. The handler raises \<^verbatim>\<open>resync_recd\<close> from 0 to 1,
  but \<open>pending_resync\<close> of \<open>e1\<close> is still true afterwards: no line of the handler
  assigns it.
\<close>

theorem created_leaves_pending_resync_set:
  "map_sum id (\<lambda>s'. (resync_recd s', map (\<lambda>(k, ep). (k, pending_resync ep)) (endpoints s')))
     (handle_endpointcreated example_env 7 (created_message ''e1'' (VStr ''R1''))
        ((collecting_agent ''R1'' 0 (VInt 2))
           \<lparr>endpoints := [(''e1'', example_endpoint ''e1'' True)], rules := [''e1'']\<rparr>))
   = Inr (Some 1, [(''e1'', True)])"
  by (simp add: eval_defs emit_def)

text \<open>
  What follows from it: when the message is the last one expected, the completion that
  the handler starts calls \<^verbatim>\<open>ep.remove()\<close> for the endpoint that was just announced
  again, and its rule chain is gone.
\<close>

lemma reannounced_endpoint_loses_its_rules:
  "map_sum id (\<lambda>s'. (resync_id s', map fst (endpoints s'), rules s', calls s'))
     (handle_endpointcreated example_env 7 (created_message ''e1'' (VStr ''R1''))
        ((collecting_agent ''R1'' 0 (VInt 1))
           \<lparr>endpoints := [(''e1'', example_endpoint ''e1'' True)], rules := [''e1'']\<rparr>))
   = Inr (None, [''e1''], [],
          [LogWarning ''Received endpoint creation for existing endpoint'',
           ProgramEndpoint ''e1'', Send TYPE_EP_REP success_reply, Remove ''e1'',
           ListEpsWithRules])"
  by (simp add: eval_defs emit_def complete_endpoint_resync_def list_eps_with_rules_def ep_remove_def)

section \<open>The rule chains after a resync\<close>

text \<open>
  Claim C2 on a run of the agent. The agent starts (the resync \<open>R1\<close> of line 96) and
  the reply announces no endpoint; ENDPOINTCREATED for \<open>e2\<close> arrives and its rule chain
  is installed; a second resync \<open>R2\<close> starts, and its reply announces no endpoint
  again. The successful completion deletes the chain of \<open>e2\<close>, but \<open>e2\<close> is still in
  the registry: no rule chain is installed, while the suffixes of the registry are
  \<open>{e2}\<close>.
\<close>

theorem pruned_endpoint_breaks_rule_invariant:
  "map_sum id (\<lambda>s. (resync_id s, map fst (endpoints s), known_suffixes s, set (rules s)))
     (bind_err (resync_endpoints example_env ''R1'' 0 idle_agent) (\<lambda>s0.
      bind_err (receive_all example_env 1
                  [(TYPE_EP_REQ, Some (resync_reply (VStr ''SUCCESS'') 0))] s0) (\<lambda>s1.
      bind_err (receive_all example_env 2
                  [(TYPE_EP_REP, Some (created_message ''e2'' VNone))] s1) (\<lambda>s2.
      bind_err (resync_endpoints example_env ''R2'' 3 s2) (\<lambda>s3.
        receive_all example_env 4
          [(TYPE_EP_REQ, Some (resync_reply (VStr ''SUCCESS'') 0))] s3)))))
   = Inr (None, [''e2''], {''e2''}, {})"
  by (simp add: eval_defs resync_reply_def emit_def complete_endpoint_resync_def
      list_eps_with_rules_def ep_remove_def known_suffixes_def)

text \<open>
  The fourth scenario of the specification, on the same model: \<open>e1\<close> and \<open>e2\<close> are
  known, the resync \<open>R2\<close> expects one endpoint, and ENDPOINTCREATED for \<open>e1\<close> arrives
  with the token. Both endpoints are still pending at the completion, so both chains
  are deleted and both endpoints stay in the registry.
\<close>

lemma scenario_4_ends_without_rules:
  "map_sum id (\<lambda>s. (resync_id s, map fst (endpoints s), known_suffixes s, set (rules s)))
     (bind_err (resync_endpoints example_env ''R1'' 0 idle_agent) (\<lambda>s0.
      bind_err (receive_all example_env 1
                  [(TYPE_EP_REQ, Some (resync_reply (VStr ''SUCCESS'') 0))] s0) (\<lambda>s1.
      bind_err (receive_all example_env 2
                  [(TYPE_EP_REP, Some (created_message ''e1'' VNone))] s1) (\<lambda>s2.
      bind_err (receive_all example_env 3
                  [(TYPE_EP_REP, Some (created_message ''e2'' VNone))] s2) (\<lambda>s3.
      bind_err (resync_endpoints example_env ''R2'' 4 s3) (\<lambda>s4.
      bind_err (receive_all example_env 5
                  [(TYPE_EP_REQ, Some (resync_reply (VStr ''SUCCESS'') 1))] s4) (\<lambda>s5.
        receive_all example_env 6
          [(TYPE_EP_REP, Some (created_message ''e1'' (VStr ''R2'')))] s5)))))))
   = Inr (None, [''e1'', ''e2''], {''e1'', ''e2''}, {})"
  by (simp add: eval_defs resync_reply_def emit_def complete_endpoint_resync_def
      list_eps_with_rules_def ep_remove_def known_suffixes_def)

section \<open>The periodic resync\<close>

lemma resync_due_after_completion:
  "resync_due e now (complete_endpoint_resync t0 successful s) =
     Inr (now - t0 * 1000 > RESYNC_INT_SEC e)"
  by (simp add: resync_due_def complete_fields)

text \<open>
  Claim C7 at a concrete input: a resync completed at second 1000, the loop runs at
  second 2000 with nothing to receive and no socket timed out, and the interval is 30
  seconds. No resync is in flight and 1000 seconds have passed, but the iteration
  starts no resync and leaves the agent as it was: \<^verbatim>\<open>resync_time\<close> holds milliseconds
  (line 196) and line 525 subtracts it from a clock reading in seconds.
\<close>

theorem periodic_resync_not_started:
  "resync_id (complete_endpoint_resync 1000 True idle_agent) = None
   \<and> 2000 - 1000 > RESYNC_INT_SEC example_env
   \<and> run_iteration example_env 2000 ''R2'' [] (complete_endpoint_resync 1000 True idle_agent)
       = Inr (complete_endpoint_resync 1000 True idle_agent)"
  by (simp add: eval_defs emit_def complete_endpoint_resync_def list_eps_with_rules_def)

section \<open>Messages that make a handler raise\<close>

lemma aclupdate_unknown_raises:
  "map_of (endpoints s) (msg_endpoint_id m) = None \<Longrightarrow>
     handle_aclupdate m s = Inl (KeyError (msg_endpoint_id m))"
  by (simp add: handle_aclupdate_def)

text \<open>
  Claim C8 at a concrete input: the registry is empty and an ACLUPDATE publication for
  \<open>e1\<close> arrives. The handler raises KeyError, and so does the iteration of the loop
  that dispatched the message: the publication is not dropped silently.
\<close>

theorem aclupdate_unknown_endpoint_raises:
  "handle_aclupdate (aclupdate_message ''e1'') idle_agent = Inl (KeyError ''e1'')
   \<and> run_iteration example_env 0 ''R2'' [(TYPE_ACL_SUB, Some (aclupdate_message ''e1''))] idle_agent
       = Inl (KeyError ''e1'')"
  by (simp add: eval_defs aclupdate_message_def)

lemma updated_unknown_raises:
  assumes "map_of (msg_fields m) ''endpoint_id'' = Some (VStr i)"
    and "map_of (msg_fields m) ''issued'' = Some iv"
    and "map_of (endpoints s) i = None"
  shows "handle_endpointupdated m s = Inl (KeyError i)"
  using assms by (simp add: handle_endpointupdated_def str_field_present field_present)

text \<open>
  Claim C9 at a concrete input: the agent has started (the resync of line 96), its
  registry is empty, and a complete ENDPOINTUPDATED message for \<open>e1\<close> arrives on
  EP_REP. The handler raises KeyError at \<^verbatim>\<open>self.endpoints[endpoint_id]\<close>, and the
  iteration of the loop that dispatched the message ends with that exception: the
  message is not logged and dropped.
\<close>

theorem update_for_unknown_endpoint_raises:
  "dispatch example_env 0 (updated_message ''e1'') idle_agent = Inl (KeyError ''e1'')
   \<and> bind_err (resync_endpoints example_env ''R1'' 0 idle_agent)
        (run_iteration example_env 1 ''R2'' [(TYPE_EP_REP, Some (updated_message ''e1''))])
       = Inl (KeyError ''e1'')"
  by (simp add: eval_defs updated_message_def emit_def)

lemma update_fields_presentD:
  assumes "update_fields_present m"
  obtains i mc st as where
    "map_of (msg_fields m) ''endpoint_id'' = Some (VStr i)"
    "map_of (msg_fields m) ''issued'' \<noteq> None"
    "map_of (msg_fields m) ''mac'' = Some (VStr mc)" "list_all (\<lambda>c. (of_char c :: nat) < 128) mc"
    "map_of (msg_fields m) ''state'' = Some (VStr st)" "list_all (\<lambda>c. (of_char c :: nat) < 128) st"
    "map_of (msg_fields m) ''addrs'' = Some (VList as)"
  using assms
  by (auto simp: update_fields_present_def has_field_def has_ascii_field_def
      split: option.splits val.splits)

lemma created_returns:
  assumes "update_fields_present m" "has_field ''resync_id'' m"
    and "resync_id s = None \<or> resync_recd s \<noteq> None"
  shows "\<exists>s'. handle_endpointcreated e now m s = Inr s'"
proof -
  from assms(1) obtain i mc st as where f:
    "map_of (msg_fields m) ''endpoint_id'' = Some (VStr i)"
    "map_of (msg_fields m) ''issued'' \<noteq> None"
    "map_of (msg_fields m) ''mac'' = Some (VStr mc)" "list_all (\<lambda>c. (of_char c :: nat) < 128) mc"
    "map_of (msg_fields m) ''state'' = Some (VStr st)" "list_all (\<lambda>c. (of_char c :: nat) < 128) st"
    "map_of (msg_fields m) ''addrs'' = Some (VList as)"
    by (rule update_fields_presentD)
  from f(2) obtain iv where iv: "map_of (msg_fields m) ''issued'' = Some iv" by auto
  from assms(2) obtain r where r: "map_of (msg_fields m) ''resync_id'' = Some r"
    by (auto simp: has_field_def)
  have tok: "truthy r \<Longrightarrow> \<not> eq_token r None"
    by (cases r) auto
  show ?thesis
  proof (cases "map_of (endpoints s) i")
    case None
    show ?thesis
      using None f(1,3) iv r assms(3) tok
      by (auto simp: handle_endpointcreated_def str_field_present field_present
          create_endpoint_def send_request_def REQUEST_TYPES_def Let_def increment_recd_def
          update_endpoint_ok [OF f(3-7)] socket_send_def program_endpoint_def
          split: option.splits)
  next
    case (Some ep)
    show ?thesis
      using Some f(1,3) iv r assms(3) tok
      by (auto simp: handle_endpointcreated_def str_field_present field_present
          Let_def increment_recd_def
          update_endpoint_ok [OF f(3-7)] socket_send_def program_endpoint_def REQUEST_TYPES_def
          split: option.splits)
  qed
qed

lemma updated_returns:
  assumes "update_fields_present m" "names_endpoint s m"
  shows "\<exists>s'. handle_endpointupdated m s = Inr s'"
proof -
  from assms(1) obtain i mc st as where f:
    "map_of (msg_fields m) ''endpoint_id'' = Some (VStr i)"
    "map_of (msg_fields m) ''issued'' \<noteq> None"
    "map_of (msg_fields m) ''mac'' = Some (VStr mc)" "list_all (\<lambda>c. (of_char c :: nat) < 128) mc"
    "map_of (msg_fields m) ''state'' = Some (VStr st)" "list_all (\<lambda>c. (of_char c :: nat) < 128) st"
    "map_of (msg_fields m) ''addrs'' = Some (VList as)"
    by (rule update_fields_presentD)
  from f(2) obtain iv where iv: "map_of (msg_fields m) ''issued'' = Some iv" by auto
  from assms(2) f(1) obtain ep where ep: "map_of (endpoints s) i = Some ep"
    by (auto simp: names_endpoint_def)
  show ?thesis
    using f(1) iv ep
    by (simp add: handle_endpointupdated_def str_field_present field_present
        update_endpoint_ok [OF f(3-7)])
qed

lemma destroyed_returns:
  assumes "map_of (msg_fields m) ''endpoint_id'' = Some (VStr i)" "has_field ''issued'' m"
  shows "\<exists>s'. handle_endpointdestroyed m s = Inr s'"
    and "map_of (endpoints s) i = None \<Longrightarrow>
         handle_endpointdestroyed m s =
           Inr (emit (LogError ''Received destroy for absent endpoint'') s)"
  using assms
  by (auto simp: handle_endpointdestroyed_def field_def has_field_def
      split: option.splits)

text \<open>
  The messages that are handled without an exception are those of \<open>fields_present\<close>:
  the type is in the dispatch table; every field the handler reads is there, with
  \<^verbatim>\<open>endpoint_id\<close> a string, \<^verbatim>\<open>mac\<close> and \<^verbatim>\<open>state\<close> ASCII strings and \<^verbatim>\<open>addrs\<close> a list;
  ENDPOINTUPDATED and ACLUPDATE name an endpoint of the registry; and, for
  ENDPOINTCREATED, \<^verbatim>\<open>resync_recd\<close> is set when a resync is in flight. An
  ENDPOINTDESTROYED for an id that is not in the registry is logged as an error and
  dropped: nothing but the log changes.
\<close>

lemma dispatch_returns_when_fields_present:
  "(fields_present s m \<longrightarrow> (\<exists>s'. dispatch e now m s = Inr s'))
   \<and> (mtype m = TYPE_EP_RM \<and> map_of (msg_fields m) ''endpoint_id'' = Some (VStr i)
        \<and> has_field ''issued'' m \<and> map_of (endpoints s) i = None \<longrightarrow>
      dispatch e now m s = Inr (emit (LogError ''Received destroy for absent endpoint'') s))"
proof (intro conjI impI)
  assume wf: "fields_present s m"
  show "\<exists>s'. dispatch e now m s = Inr s'"
  proof (cases "mtype m")
    case TYPE_HEARTBEAT
    then show ?thesis by (simp add: dispatch_def handle_heartbeat_def)
  next
    case TYPE_EP_CR
    with wf show ?thesis
      by (simp add: dispatch_def fields_present_def created_returns)
  next
    case TYPE_EP_UP
    with wf show ?thesis
      by (simp add: dispatch_def fields_present_def updated_returns)
  next
    case TYPE_EP_RM
    with wf show ?thesis
      by (auto simp: dispatch_def fields_present_def intro: destroyed_returns(1)
          split: option.splits val.splits)
  next
    case TYPE_RESYNC
    with wf show ?thesis
      by (auto simp: dispatch_def fields_present_def has_field_def handle_resyncstate_def
          field_def)
  next
    case TYPE_GET_ACL
    with wf show ?thesis
      by (auto simp: dispatch_def fields_present_def has_field_def handle_getaclstate_def
          field_def)
  next
    case TYPE_ACL_UPD
    with wf show ?thesis
      by (auto simp: dispatch_def fields_present_def has_field_def handle_aclupdate_def
          field_def)
  next
    case (TYPE_OTHER t)
    with wf show ?thesis by (simp add: fields_present_def)
  qed
next
  assume "mtype m = TYPE_EP_RM \<and> map_of (msg_fields m) ''endpoint_id'' = Some (VStr i)
        \<and> has_field ''issued'' m \<and> map_of (endpoints s) i = None"
  then show "dispatch e now m s = Inr (emit (LogError ''Received destroy for absent endpoint'') s)"
    by (simp add: dispatch_def destroyed_returns(2))
qed

lemma dispatch_returns_at_examples:
  "fields_present idle_agent (destroyed_message ''e9'')
   \<and> dispatch example_env 0 (destroyed_message ''e9'') idle_agent
       = Inr (emit (LogError ''Received destroy for absent endpoint'') idle_agent)
   \<and> fields_present idle_agent (created_message ''e1'' VNone)
   \<and> (\<exists>s'. dispatch example_env 0 (created_message ''e1'' VNone) idle_agent = Inr s')"
proof -
  have a: "fields_present idle_agent (destroyed_message ''e9'')"
    by (simp add: fields_present_def destroyed_message_def Message_def has_field_def)
  have b: "mtype (destroyed_message ''e9'') = TYPE_EP_RM
     \<and> map_of (msg_fields (destroyed_message ''e9'')) ''endpoint_id'' = Some (VStr ''e9'')
     \<and> has_field ''issued'' (destroyed_message ''e9'') \<and> map_of (endpoints idle_agent) ''e9'' = None"
    by (simp add: destroyed_message_def Message_def has_field_def idle_agent_def)
  have c: "fields_present idle_agent (created_message ''e1'' VNone)"
    by (simp add: fields_present_def created_message_def Message_def has_field_def
        update_fields_present_def has_ascii_field_def idle_agent_def)
  show ?thesis
    using dispatch_returns_when_fields_present [of idle_agent "destroyed_message ''e9''" example_env 0 "''e9''"]
      dispatch_returns_when_fields_present [of idle_agent "created_message ''e1'' VNone" example_env 0 "''e9''"]
      a b c
    by blast
qed

text \<open>
  A message that lacks a field is not dropped either: a GETACLSTATE reply without the
  field \<^verbatim>\<open>rc\<close> makes the handler raise KeyError, and the iteration of the loop that
  dispatched it ends with that exception.
\<close>

lemma missing_field_raises:
  "dispatch example_env 0 (Message TYPE_GET_ACL [(''message'', VStr [])]) idle_agent
     = Inl (KeyError ''rc'')
   \<and> run_iteration example_env 0 ''R2''
       [(TYPE_ACL_REQ, Some (Message TYPE_GET_ACL [(''message'', VStr [])]))] idle_agent
     = Inl (KeyError ''rc'')"
  by (simp add: eval_defs)

end
